theory Spec2Isabelle
  imports Main "HOL-Library.Word"
begin

section \<open>The kubeconfig settings of minikube: pkg/minikube/kubeconfig/settings.go\<close>

text \<open>
  The file defines the \<open>Settings\<close> record, the projector \<open>PopulateFromSettings\<close>, which
  writes one cluster, one credential and one context entry into an in-memory kubeconfig
  document, and the orchestrator \<open>Update\<close>, which runs the projector between a load and a
  write of the document on disk, under a lock. Both functions act on their surroundings
  (certificate files, the clock, freshly allocated extension objects, the lock, the
  kubeconfig file), so the embedding passes an explicit \<open>machine\<close> state through them and
  returns the Go \<open>error\<close> as an \<open>error option\<close> (\<open>None\<close> is \<open>nil\<close>).
\<close>

subsection \<open>Errors\<close>

type_synonym bytes = "8 word list"

datatype errno = ENOENT | EACCES | EISDIR | EIO

text \<open>
  \<open>PathError\<close> is what the operating system reports for a path; \<open>Wrap\<close> is the result of
  \<open>errors.Wrap\<close> and \<open>errors.Wrapf\<close> (the formatted message, then the cause), and
  \<open>WrapSpec\<close> the same around a lock specification (the message, the path and the
  operation tag the specification is made of, then the cause);
  \<open>LockError\<close> is a failure of the mutex library; \<open>DecodeError\<close> is a failure of the
  kubeconfig parser; \<open>NilInterfacePanic\<close> is the run-time panic of the type assertion in
  \<open>filePath\<close> when no path was ever stored.
\<close>

datatype error =
    PathError string errno
  | Wrap string error
  | WrapSpec string string string error
  | LockError string
  | DecodeError bytes
  | NilInterfacePanic

definition Wrapf :: "error \<Rightarrow> string \<Rightarrow> string \<Rightarrow> error" where
  "Wrapf err fmt arg = Wrap (fmt @ arg) err"

fun IsNotExist :: "error \<Rightarrow> bool" where
  "IsNotExist (PathError p e) = (e = ENOENT)"
| "IsNotExist _ = False"

subsection \<open>The extension object\<close>

record runtime_TypeMeta =
  APIVersion :: string
  Kind :: string

record internalExtension =
  TypeMeta :: runtime_TypeMeta
  CreatedBy :: string
  LastUpdate :: string

definition zero_internalExtension :: internalExtension where
  "zero_internalExtension =
     \<lparr>TypeMeta = \<lparr>APIVersion = [], Kind = []\<rparr>, CreatedBy = [], LastUpdate = []\<rparr>"

text \<open>
  A \<open>runtime.Object\<close> stored in an \<open>Extensions\<close> map is an interface value. The only
  implementation this package defines is \<open>*internalExtension\<close>, a pointer: an address of
  the object store, or nil. Whatever else a loaded document carries is opaque here.
\<close>

datatype runtime_Object =
    InternalExtensionPtr nat
  | NilInternalExtension
  | OtherObject bytes

fun to_Object :: "nat option \<Rightarrow> runtime_Object" where
  "to_Object (Some a) = InternalExtensionPtr a"
| "to_Object None = NilInternalExtension"

subsection \<open>The machine state\<close>

datatype event =
    EvAcquire string string
  | EvRelease string string
  | EvReadFile string
  | EvWriteFile string
  | EvNow

text \<open>
  \<open>store\<close> holds the allocated \<open>internalExtension\<close> objects, an address being an index
  (allocation appends, so a new address is always fresh). \<open>disk\<close> is what reading a path
  yields, \<open>wfail\<close> whether writing a path fails, \<open>lockfail\<close> whether acquiring the mutex
  made from a path and an operation tag fails. \<open>clock\<close> is the sequence of readings of
  \<open>time.Now().String()\<close> and \<open>ticks\<close> the number of readings taken so far. \<open>trace\<close> logs
  the effects in the order they happen.
\<close>

record machine =
  store :: "internalExtension list"
  disk :: "string \<Rightarrow> errno + bytes"
  wfail :: "string \<Rightarrow> errno option"
  lockfail :: "string \<Rightarrow> string \<Rightarrow> error option"
  clock :: "nat \<Rightarrow> string"
  ticks :: nat
  trace :: "event list"

definition log_event :: "event \<Rightarrow> machine \<Rightarrow> machine" where
  "log_event e m = m\<lparr>trace := trace m @ [e]\<rparr>"

text \<open>\<open>ioutil.ReadFile\<close>: the bytes of the file, or the error of the operating system.\<close>

definition ReadFile :: "string \<Rightarrow> machine \<Rightarrow> (error + bytes) \<times> machine" where
  "ReadFile p m =
     (case disk m p of
        Inl e \<Rightarrow> (Inl (PathError p e), log_event (EvReadFile p) m)
      | Inr bs \<Rightarrow> (Inr bs, log_event (EvReadFile p) m))"

text \<open>\<open>time.Now().String()\<close>: one reading of the clock.\<close>

definition time_Now :: "machine \<Rightarrow> string \<times> machine" where
  "time_Now m = (clock m (ticks m), log_event EvNow (m\<lparr>ticks := Suc (ticks m)\<rparr>))"

text \<open>\<open>&internalExtension{...}\<close> and \<open>new(internalExtension)\<close>: allocate an object.\<close>

definition alloc :: "internalExtension \<Rightarrow> machine \<Rightarrow> nat \<times> machine" where
  "alloc x m = (length (store m), m\<lparr>store := store m @ [x]\<rparr>)"

text \<open>
  \<open>DeepCopyInto\<close>: \<open>*out = *in\<close>, then \<open>out.TypeMeta = in.TypeMeta\<close>. Both pointers are
  live in Go; an address outside the store leaves the store as it is.
\<close>

definition DeepCopyInto :: "nat \<Rightarrow> nat \<Rightarrow> machine \<Rightarrow> machine" where
  "DeepCopyInto inp out m =
     (if inp < length (store m) \<and> out < length (store m)
      then (let s1 = (store m)[out := store m ! inp];
                s2 = s1[out := (s1 ! out)\<lparr>TypeMeta := TypeMeta (s1 ! inp)\<rparr>]
            in m\<lparr>store := s2\<rparr>)
      else m)"

text \<open>\<open>DeepCopy\<close>: nil for nil, else a new object filled by \<open>DeepCopyInto\<close>.\<close>

fun DeepCopy :: "nat option \<Rightarrow> machine \<Rightarrow> nat option \<times> machine" where
  "DeepCopy None m = (None, m)"
| "DeepCopy (Some inp) m =
     (let (out, m1) = alloc zero_internalExtension m
      in (Some out, DeepCopyInto inp out m1))"

text \<open>\<open>DeepCopyObject\<close>: the copy as an interface value, the nil interface for nil.\<close>

definition DeepCopyObject :: "nat option \<Rightarrow> machine \<Rightarrow> runtime_Object option \<times> machine" where
  "DeepCopyObject inp m =
     (case DeepCopy inp m of
        (Some c, m1) \<Rightarrow> (Some (InternalExtensionPtr c), m1)
      | (None, m1) \<Rightarrow> (None, m1))"

subsection \<open>Settings\<close>

text \<open>
  \<open>kubeConfigFile\<close> is an \<open>atomic.Value\<close>: \<open>None\<close> until \<open>SetPath\<close> stores a string.
\<close>

record Settings =
  ClusterName :: string
  Namespace :: string
  ClusterServerAddress :: string
  ClientCertificate :: string
  CertificateAuthority :: string
  ClientKey :: string
  KeepContext :: bool
  EmbedCerts :: bool
  kubeConfigFile :: "string option"

definition SetPath :: "Settings \<Rightarrow> string \<Rightarrow> Settings" where
  "SetPath k p = k\<lparr>kubeConfigFile := Some p\<rparr>"

definition filePath :: "Settings \<Rightarrow> error + string" where
  "filePath k = (case kubeConfigFile k of None \<Rightarrow> Inl NilInterfacePanic | Some p \<Rightarrow> Inr p)"

subsection \<open>The configuration document\<close>

text \<open>
  Modelled from the spec: the document types \<open>api.Config\<close>, \<open>api.Cluster\<close>,
  \<open>api.AuthInfo\<close> and \<open>api.Context\<close> and their constructors \<open>api.NewConfig\<close>,
  \<open>api.NewCluster\<close>, \<open>api.NewAuthInfo\<close> and \<open>api.NewContext\<close> are declared outside this
  file. The records carry the attributes of the spec's data model: a cluster entry has a
  server address, a certificate-authority reference (a path or inlined bytes) and
  extension metadata; a credential entry has a client certificate and a client key (each
  a path or inlined bytes); a context entry has a cluster reference, a credential
  reference, a namespace and extension metadata; the document has the three mappings and
  the current-context scalar. The mappings are those of a loaded or newly made document,
  so they are allocated, and a constructor yields the entry with every field zero and an
  empty extension map.
\<close>

record Cluster =
  cluster_Server :: string
  cluster_CertificateAuthority :: string
  cluster_CertificateAuthorityData :: bytes
  cluster_Extensions :: "string \<rightharpoonup> runtime_Object"

record AuthInfo =
  user_ClientCertificate :: string
  user_ClientCertificateData :: bytes
  user_ClientKey :: string
  user_ClientKeyData :: bytes

record Context =
  context_Cluster :: string
  context_AuthInfo :: string
  context_Namespace :: string
  context_Extensions :: "string \<rightharpoonup> runtime_Object"

record Config =
  Clusters :: "string \<rightharpoonup> Cluster"
  AuthInfos :: "string \<rightharpoonup> AuthInfo"
  Contexts :: "string \<rightharpoonup> Context"
  CurrentContext :: string

definition NewCluster :: Cluster where
  "NewCluster = \<lparr>cluster_Server = [], cluster_CertificateAuthority = [],
     cluster_CertificateAuthorityData = [], cluster_Extensions = Map.empty\<rparr>"

definition NewAuthInfo :: AuthInfo where
  "NewAuthInfo = \<lparr>user_ClientCertificate = [], user_ClientCertificateData = [],
     user_ClientKey = [], user_ClientKeyData = []\<rparr>"

definition NewContext :: Context where
  "NewContext = \<lparr>context_Cluster = [], context_AuthInfo = [], context_Namespace = [],
     context_Extensions = Map.empty\<rparr>"

definition NewConfig :: Config where
  "NewConfig = \<lparr>Clusters = Map.empty, AuthInfos = Map.empty, Contexts = Map.empty,
     CurrentContext = []\<rparr>"

subsection \<open>PopulateFromSettings\<close>

text \<open>
  The document \<open>apiCfg\<close> is passed by pointer and changed in place, so the function
  returns it next to the error: what it holds when the function returns early is what
  the caller's document holds. The three stages follow the source: the cluster (lines
  77 to 96), the user (lines 98 to 114), the context and the current context (lines 116
  to 130).
\<close>

definition PopulateFromSettings ::
  "Settings \<Rightarrow> Config \<Rightarrow> machine \<Rightarrow> error option \<times> Config \<times> machine" where
  "PopulateFromSettings cfg apiCfg m0 =
    (let clusterName = ClusterName cfg;
         cluster = NewCluster\<lparr>cluster_Server := ClusterServerAddress cfg\<rparr>;
         (r1, m1) =
           (if EmbedCerts cfg
            then (case ReadFile (CertificateAuthority cfg) m0 of
                    (Inl err, m) \<Rightarrow>
                      (Inl (Wrapf err ''reading CertificateAuthority '' (CertificateAuthority cfg)), m)
                  | (Inr data, m) \<Rightarrow>
                      (Inr (cluster\<lparr>cluster_CertificateAuthorityData := data\<rparr>), m))
            else (Inr (cluster\<lparr>cluster_CertificateAuthority := CertificateAuthority cfg\<rparr>), m0))
     in case r1 of
          Inl err \<Rightarrow> (Some err, apiCfg, m1)
        | Inr cluster1 \<Rightarrow>
    (let (lastUpdate, m2) = time_Now m1;
         (ext, m3) = alloc (zero_internalExtension
                       \<lparr>CreatedBy := ''minikube.sigs.k8s.io'', LastUpdate := lastUpdate\<rparr>) m2;
         (c1, m4) = DeepCopy (Some ext) m3;
         cluster2 = cluster1\<lparr>cluster_Extensions := [''cluster_info'' \<mapsto> to_Object c1]\<rparr>;
         apiCfg1 = apiCfg\<lparr>Clusters := (Clusters apiCfg)(clusterName \<mapsto> cluster2)\<rparr>;
         userName = ClusterName cfg;
         user = NewAuthInfo;
         (r2, m5) =
           (if EmbedCerts cfg
            then (case ReadFile (ClientCertificate cfg) m4 of
                    (Inl err, m) \<Rightarrow>
                      (Inl (Wrapf err ''reading ClientCertificate '' (ClientCertificate cfg)), m)
                  | (Inr cdata, m) \<Rightarrow>
                      (case ReadFile (ClientKey cfg) m of
                         (Inl err, m') \<Rightarrow>
                           (Inl (Wrapf err ''reading ClientKey '' (ClientKey cfg)), m')
                       | (Inr kdata, m') \<Rightarrow>
                           (Inr (user\<lparr>user_ClientCertificateData := cdata,
                                      user_ClientKeyData := kdata\<rparr>), m')))
            else (Inr (user\<lparr>user_ClientCertificate := ClientCertificate cfg,
                            user_ClientKey := ClientKey cfg\<rparr>), m4))
     in case r2 of
          Inl err \<Rightarrow> (Some err, apiCfg1, m5)
        | Inr user1 \<Rightarrow>
    (let apiCfg2 = apiCfg1\<lparr>AuthInfos := (AuthInfos apiCfg1)(userName \<mapsto> user1)\<rparr>;
         contextName = ClusterName cfg;
         context = NewContext\<lparr>context_Cluster := ClusterName cfg,
                              context_Namespace := Namespace cfg,
                              context_AuthInfo := userName\<rparr>;
         (c2, m6) = DeepCopy (Some ext) m5;
         context1 = context\<lparr>context_Extensions := [''context_info'' \<mapsto> to_Object c2]\<rparr>;
         apiCfg3 = apiCfg2\<lparr>Contexts := (Contexts apiCfg2)(contextName \<mapsto> context1)\<rparr>;
         apiCfg4 = (if \<not> KeepContext cfg
                    then apiCfg3\<lparr>CurrentContext := ClusterName cfg\<rparr> else apiCfg3)
     in (None, apiCfg4, m6))))"

subsection \<open>Update\<close>

text \<open>
  Modelled from the spec: the parser and the serializer of the on-disk format are
  external collaborators, taken as the two parameters of a \<open>codec\<close>. Parsing allocates
  the extension objects of the document it builds, so \<open>decode\<close> takes the object store
  and returns the new one; \<open>None\<close> is a parse failure.
\<close>

record codec =
  decode :: "bytes \<Rightarrow> internalExtension list \<Rightarrow> (Config \<times> internalExtension list) option"
  encode :: "Config \<Rightarrow> internalExtension list \<Rightarrow> bytes"

text \<open>
  Modelled from the spec: \<open>readOrNew\<close> is declared in another file of the package.
  The spec, section 4.3 step 4: load the document from the target path if it exists and
  parses; a missing file falls back to an empty document, and only a missing file; a
  parse failure of an existing file is a fatal error.
\<close>

definition readOrNew :: "codec \<Rightarrow> string \<Rightarrow> machine \<Rightarrow> (error + Config) \<times> machine" where
  "readOrNew cd p m =
     (case ReadFile p m of
        (Inl err, m1) \<Rightarrow> if IsNotExist err then (Inr NewConfig, m1) else (Inl err, m1)
      | (Inr data, m1) \<Rightarrow>
          (case decode cd data (store m1) of
             None \<Rightarrow> (Inl (DecodeError data), m1)
           | Some (kcfg, st) \<Rightarrow> (Inr kcfg, m1\<lparr>store := st\<rparr>)))"

text \<open>
  Modelled from the spec: \<open>writeToFile\<close> is declared in another file of the package.
  The spec, section 4.3 step 6: persist the document to the path; a write failure is an
  error, and the write is taken to fail cleanly (the file keeps its content).
\<close>

definition writeToFile :: "codec \<Rightarrow> Config \<Rightarrow> string \<Rightarrow> machine \<Rightarrow> error option \<times> machine" where
  "writeToFile cd kcfg p m =
     (case wfail m p of
        Some e \<Rightarrow> (Some (PathError p e), log_event (EvWriteFile p) m)
      | None \<Rightarrow> (None, log_event (EvWriteFile p)
                   (m\<lparr>disk := (disk m)(p := Inr (encode cd kcfg (store m)))\<rparr>)))"

text \<open>
  Modelled from the spec: \<open>lock.PathMutexSpec\<close> and \<open>mutex.Acquire\<close> are declared
  outside this file. The lock is named by the target path and the fixed operation tag
  (the two arguments of \<open>filepath.Join\<close>); acquiring it succeeds or fails with the error
  of the mutex library, and the releaser releases it.
\<close>

definition Acquire :: "string \<Rightarrow> string \<Rightarrow> machine \<Rightarrow> error option \<times> machine" where
  "Acquire p tag m =
     (case lockfail m p tag of
        Some e \<Rightarrow> (Some e, m)
      | None \<Rightarrow> (None, log_event (EvAcquire p tag) m))"

definition Release :: "string \<Rightarrow> string \<Rightarrow> machine \<Rightarrow> machine" where
  "Release p tag m = log_event (EvRelease p tag) m"

text \<open>
  \<open>Update\<close>, lines 136 to 162. The calls of \<open>klog\<close> only log. \<open>filePath\<close> panics when
  no path was stored, before the lock is taken. The deferred \<open>Release\<close> runs on every
  return after the lock was acquired.
\<close>

definition Update :: "codec \<Rightarrow> Settings \<Rightarrow> machine \<Rightarrow> error option \<times> machine" where
  "Update cd kcs m0 =
     (case filePath kcs of
        Inl panic \<Rightarrow> (Some panic, m0)
      | Inr p \<Rightarrow>
     (case Acquire p ''settings.Update'' m0 of
        (Some err, m1) \<Rightarrow>
          (Some (WrapSpec ''unable to acquire lock for '' p ''settings.Update'' err), m1)
      | (None, m1) \<Rightarrow>
     (let (res, m5) =
        (case readOrNew cd p m1 of
           (Inl err, m2) \<Rightarrow> (Some err, m2)
         | (Inr kcfg, m2) \<Rightarrow>
        (case PopulateFromSettings kcs kcfg m2 of
           (Some err, kcfg1, m3) \<Rightarrow> (Some err, m3)
         | (None, kcfg1, m3) \<Rightarrow>
        (case writeToFile cd kcfg1 p m3 of
           (Some err, m4) \<Rightarrow> (Some (Wrap ''writing kubeconfig'' err), m4)
         | (None, m4) \<Rightarrow> (None, m4))))
      in (res, Release p ''settings.Update'' m5))))"

subsection \<open>Values the proofs name\<close>

text \<open>
  The extension object a call stamps, the cluster entry and the context entry it builds,
  as functions of the settings and of the machine state on entry.
\<close>

definition stamp :: "machine \<Rightarrow> internalExtension" where
  "stamp m = \<lparr>TypeMeta = \<lparr>APIVersion = [], Kind = []\<rparr>,
     CreatedBy = ''minikube.sigs.k8s.io'', LastUpdate = clock m (ticks m)\<rparr>"

definition cluster_of :: "Settings \<Rightarrow> machine \<Rightarrow> bytes \<Rightarrow> Cluster" where
  "cluster_of cfg m ca =
     \<lparr>cluster_Server = ClusterServerAddress cfg,
      cluster_CertificateAuthority = (if EmbedCerts cfg then [] else CertificateAuthority cfg),
      cluster_CertificateAuthorityData = ca,
      cluster_Extensions = [''cluster_info'' \<mapsto> InternalExtensionPtr (Suc (length (store m)))]\<rparr>"

definition context_of :: "Settings \<Rightarrow> machine \<Rightarrow> Context" where
  "context_of cfg m =
     \<lparr>context_Cluster = ClusterName cfg, context_AuthInfo = ClusterName cfg,
      context_Namespace = Namespace cfg,
      context_Extensions =
        [''context_info'' \<mapsto> InternalExtensionPtr (Suc (Suc (length (store m))))]\<rparr>"

subsection \<open>Concrete inputs\<close>

text \<open>
  A settings record that references its certificates by path, a machine whose disk holds
  the three certificate files and a kubeconfig with content no parser accepts (and no
  file at \<open>config\<close>), a document that already has entries for another cluster, and a
  codec that parses only the empty file.
\<close>

definition ex_settings :: Settings where
  "ex_settings = \<lparr>ClusterName = ''minikube'', Namespace = ''default'',
     ClusterServerAddress = ''https://192.168.49.2:8443'',
     ClientCertificate = ''client.crt'', CertificateAuthority = ''ca.crt'',
     ClientKey = ''client.key'', KeepContext = False, EmbedCerts = False,
     kubeConfigFile = Some ''config''\<rparr>"

definition ex_machine :: machine where
  "ex_machine = \<lparr>store = [],
     disk = (\<lambda>p. if p = ''ca.crt'' then Inr [1] else if p = ''client.crt'' then Inr [2]
                 else if p = ''client.key'' then Inr [3]
                 else if p = ''broken'' then Inr [7] else Inl ENOENT),
     wfail = (\<lambda>p. None), lockfail = (\<lambda>p tag. None), clock = (\<lambda>n. ''t''), ticks = 0,
     trace = []\<rparr>"

definition ex_document :: Config where
  "ex_document = NewConfig\<lparr>
     Clusters := [''other'' \<mapsto> NewCluster\<lparr>cluster_Server := ''https://10.0.0.1''\<rparr>],
     AuthInfos := [''other'' \<mapsto> NewAuthInfo],
     Contexts := [''other'' \<mapsto> NewContext\<lparr>context_Cluster := ''other''\<rparr>],
     CurrentContext := ''other''\<rparr>"

definition ex_codec :: codec where
  "ex_codec = \<lparr>decode = (\<lambda>bs st. if bs = [] then Some (NewConfig, st) else None),
     encode = (\<lambda>c st. [])\<rparr>"

abbreviation ex_embed :: Settings where
  "ex_embed \<equiv> ex_settings\<lparr>EmbedCerts := True\<rparr>"

abbreviation run_plain :: "error option \<times> Config \<times> machine" where
  "run_plain \<equiv> PopulateFromSettings ex_settings ex_document ex_machine"

abbreviation run_embed :: "error option \<times> Config \<times> machine" where
  "run_embed \<equiv> PopulateFromSettings ex_embed ex_document ex_machine"

section \<open>What every path of PopulateFromSettings returns\<close>

lemma DeepCopy_live:
  "a < length (store m) \<Longrightarrow>
   DeepCopy (Some a) m = (Some (length (store m)), m\<lparr>store := store m @ [store m ! a]\<rparr>)"
  by (simp add: alloc_def DeepCopyInto_def Let_def nth_append)

lemma ReadFile_Inl:
  "disk m p = Inl e \<Longrightarrow>
   ReadFile p m = (Inl (PathError p e), m\<lparr>trace := trace m @ [EvReadFile p]\<rparr>)"
  by (simp add: ReadFile_def log_event_def)

lemma ReadFile_Inr:
  "disk m p = Inr bs \<Longrightarrow> ReadFile p m = (Inr bs, m\<lparr>trace := trace m @ [EvReadFile p]\<rparr>)"
  by (simp add: ReadFile_def log_event_def)

lemmas pop_simps = PopulateFromSettings_def Let_def time_Now_def log_event_def alloc_def
  DeepCopy_live nth_append stamp_def zero_internalExtension_def NewCluster_def
  NewAuthInfo_def NewContext_def Wrapf_def cluster_of_def context_of_def

lemma Populate_noembed:
  assumes "\<not> EmbedCerts cfg"
  shows "PopulateFromSettings cfg apiCfg m =
    (None,
     apiCfg\<lparr>Clusters := (Clusters apiCfg)(ClusterName cfg \<mapsto> cluster_of cfg m []),
        AuthInfos := (AuthInfos apiCfg)(ClusterName cfg \<mapsto>
         \<lparr>user_ClientCertificate = ClientCertificate cfg, user_ClientCertificateData = [],
          user_ClientKey = ClientKey cfg, user_ClientKeyData = []\<rparr>),
        Contexts := (Contexts apiCfg)(ClusterName cfg \<mapsto> context_of cfg m),
        CurrentContext := (if KeepContext cfg then CurrentContext apiCfg else ClusterName cfg)\<rparr>,
     m\<lparr>store := store m @ [stamp m, stamp m, stamp m], ticks := Suc (ticks m),
       trace := trace m @ [EvNow]\<rparr>)"
  using assms by (simp add: pop_simps del: DeepCopy.simps)

lemma Populate_ca_fails:
  assumes "EmbedCerts cfg" and "disk m (CertificateAuthority cfg) = Inl e"
  shows "PopulateFromSettings cfg apiCfg m =
    (Some (Wrap (''reading CertificateAuthority '' @ CertificateAuthority cfg)
             (PathError (CertificateAuthority cfg) e)),
     apiCfg,
     m\<lparr>trace := trace m @ [EvReadFile (CertificateAuthority cfg)]\<rparr>)"
  using assms by (simp add: pop_simps ReadFile_Inl del: DeepCopy.simps)

lemma Populate_cert_fails:
  assumes "EmbedCerts cfg" and "disk m (CertificateAuthority cfg) = Inr ca"
    and "disk m (ClientCertificate cfg) = Inl e"
  shows "PopulateFromSettings cfg apiCfg m =
    (Some (Wrap (''reading ClientCertificate '' @ ClientCertificate cfg)
             (PathError (ClientCertificate cfg) e)),
     apiCfg\<lparr>Clusters := (Clusters apiCfg)(ClusterName cfg \<mapsto> cluster_of cfg m ca)\<rparr>,
     m\<lparr>store := store m @ [stamp m, stamp m], ticks := Suc (ticks m),
       trace := trace m @ [EvReadFile (CertificateAuthority cfg), EvNow,
                            EvReadFile (ClientCertificate cfg)]\<rparr>)"
  using assms by (simp add: pop_simps ReadFile_Inl ReadFile_Inr del: DeepCopy.simps)

lemma Populate_key_fails:
  assumes "EmbedCerts cfg" and "disk m (CertificateAuthority cfg) = Inr ca"
    and "disk m (ClientCertificate cfg) = Inr cc"
    and "disk m (ClientKey cfg) = Inl e"
  shows "PopulateFromSettings cfg apiCfg m =
    (Some (Wrap (''reading ClientKey '' @ ClientKey cfg) (PathError (ClientKey cfg) e)),
     apiCfg\<lparr>Clusters := (Clusters apiCfg)(ClusterName cfg \<mapsto> cluster_of cfg m ca)\<rparr>,
     m\<lparr>store := store m @ [stamp m, stamp m], ticks := Suc (ticks m),
       trace := trace m @ [EvReadFile (CertificateAuthority cfg), EvNow,
                            EvReadFile (ClientCertificate cfg), EvReadFile (ClientKey cfg)]\<rparr>)"
  using assms by (simp add: pop_simps ReadFile_Inl ReadFile_Inr del: DeepCopy.simps)

lemma Populate_embed:
  assumes "EmbedCerts cfg" and "disk m (CertificateAuthority cfg) = Inr ca"
    and "disk m (ClientCertificate cfg) = Inr cc"
    and "disk m (ClientKey cfg) = Inr ck"
  shows "PopulateFromSettings cfg apiCfg m =
    (None,
     apiCfg\<lparr>Clusters := (Clusters apiCfg)(ClusterName cfg \<mapsto> cluster_of cfg m ca),
        AuthInfos := (AuthInfos apiCfg)(ClusterName cfg \<mapsto>
         \<lparr>user_ClientCertificate = [], user_ClientCertificateData = cc,
          user_ClientKey = [], user_ClientKeyData = ck\<rparr>),
        Contexts := (Contexts apiCfg)(ClusterName cfg \<mapsto> context_of cfg m),
        CurrentContext := (if KeepContext cfg then CurrentContext apiCfg else ClusterName cfg)\<rparr>,
     m\<lparr>store := store m @ [stamp m, stamp m, stamp m], ticks := Suc (ticks m),
       trace := trace m @ [EvReadFile (CertificateAuthority cfg), EvNow,
                            EvReadFile (ClientCertificate cfg), EvReadFile (ClientKey cfg)]\<rparr>)"
  using assms by (simp add: pop_simps ReadFile_Inl ReadFile_Inr del: DeepCopy.simps)

text \<open>A call that returns nil took one of the two complete paths.\<close>

lemma Populate_success:
  assumes "PopulateFromSettings cfg apiCfg m = (None, apiCfg', m')"
  shows "\<exists>ca us.
    apiCfg' = apiCfg\<lparr>Clusters := (Clusters apiCfg)(ClusterName cfg \<mapsto> cluster_of cfg m ca),
        AuthInfos := (AuthInfos apiCfg)(ClusterName cfg \<mapsto> us),
        Contexts := (Contexts apiCfg)(ClusterName cfg \<mapsto> context_of cfg m),
        CurrentContext := (if KeepContext cfg then CurrentContext apiCfg else ClusterName cfg)\<rparr>
    \<and> store m' = store m @ [stamp m, stamp m, stamp m] \<and> ticks m' = Suc (ticks m)
    \<and> disk m' = disk m
    \<and> (\<exists>evs. trace m' = trace m @ evs \<and> length (filter (\<lambda>e. e = EvNow) evs) = 1)"
proof (cases "EmbedCerts cfg")
  case False
  from Populate_noembed [OF False, of apiCfg m] assms show ?thesis by auto
next
  case True
  show ?thesis
  proof (cases "disk m (CertificateAuthority cfg)")
    case (Inl e)
    from Populate_ca_fails [OF True Inl, of apiCfg] assms show ?thesis by simp
  next
    case ca: (Inr ca)
    show ?thesis
    proof (cases "disk m (ClientCertificate cfg)")
      case (Inl e)
      from Populate_cert_fails [OF True ca Inl, of apiCfg] assms show ?thesis by simp
    next
      case cc: (Inr cc)
      show ?thesis
      proof (cases "disk m (ClientKey cfg)")
        case (Inl e)
        from Populate_key_fails [OF True ca cc Inl, of apiCfg] assms show ?thesis by simp
      next
        case (Inr ck)
        from Populate_embed [OF True ca cc Inr, of apiCfg] assms show ?thesis by auto
      qed
    qed
  qed
qed

text \<open>With embedding on, one unreadable certificate file makes the call fail.\<close>

lemma Populate_failure:
  assumes "EmbedCerts cfg"
    and "disk m (CertificateAuthority cfg) = Inl e1 \<or> disk m (ClientCertificate cfg) = Inl e2
         \<or> disk m (ClientKey cfg) = Inl e3"
  shows "\<exists>err d m'. PopulateFromSettings cfg apiCfg m = (Some err, d, m') \<and> disk m' = disk m
     \<and> wfail m' = wfail m
     \<and> (\<exists>evs. trace m' = trace m @ evs \<and> (\<forall>q. EvWriteFile q \<notin> set evs))"
proof (cases "disk m (CertificateAuthority cfg)")
  case (Inl e)
  from Populate_ca_fails [OF assms(1) Inl, of apiCfg] show ?thesis by simp
next
  case ca: (Inr ca)
  show ?thesis
  proof (cases "disk m (ClientCertificate cfg)")
    case (Inl e)
    from Populate_cert_fails [OF assms(1) ca Inl, of apiCfg] show ?thesis by simp
  next
    case cc: (Inr cc)
    show ?thesis
    proof (cases "disk m (ClientKey cfg)")
      case (Inl e)
      from Populate_key_fails [OF assms(1) ca cc Inl, of apiCfg] show ?thesis by simp
    next
      case (Inr ck)
      with ca cc assms(2) show ?thesis by simp
    qed
  qed
qed

lemma readOrNew_frame:
  assumes "readOrNew cd p m = (r, m')"
  shows "disk m' = disk m \<and> wfail m' = wfail m \<and> trace m' = trace m @ [EvReadFile p]"
  using assms
  by (auto simp: readOrNew_def ReadFile_def log_event_def
      split: sum.splits option.splits if_splits prod.splits)

text \<open>The concrete inputs, evaluated.\<close>

lemma ex_settings_simps:
  "ClusterName ex_settings = ''minikube''" "\<not> EmbedCerts ex_settings"
  "\<not> KeepContext ex_settings" "CertificateAuthority ex_settings = ''ca.crt''"
  "ClientCertificate ex_settings = ''client.crt''" "ClientKey ex_settings = ''client.key''"
  "kubeConfigFile ex_settings = Some ''config''"
  by (simp_all add: ex_settings_def)

lemma ex_machine_simps:
  "disk ex_machine ''ca.crt'' = Inr [1]" "disk ex_machine ''client.crt'' = Inr [2]"
  "disk ex_machine ''client.key'' = Inr [3]" "disk ex_machine ''broken'' = Inr [7]"
  "disk ex_machine ''config'' = Inl ENOENT" "disk ex_machine ''gone'' = Inl ENOENT"
  "store ex_machine = []" "trace ex_machine = []" "ticks ex_machine = 0"
  "clock ex_machine 0 = ''t''" "lockfail ex_machine p tag = None" "wfail ex_machine p = None"
  by (simp_all add: ex_machine_def)

lemma run_plain_ok:
  "run_plain = (None, fst (snd run_plain), snd (snd run_plain))"
  by (simp add: Populate_noembed ex_settings_simps)

lemma run_embed_ok:
  "run_embed = (None, fst (snd run_embed), snd (snd run_embed))"
  by (simp add: Populate_embed [where ca = "[1]" and cc = "[2]" and ck = "[3]"]
      ex_settings_simps ex_machine_simps)

section \<open>The claims about PopulateFromSettings\<close>

text \<open>
  C2. After a successful \<open>PopulateFromSettings\<close>, the cluster entry, the credential
  entry and the context entry it wrote are keyed by the settings' \<open>ClusterName\<close> (that
  key is the only one each mapping gained), and the context entry's cluster reference
  and credential reference are both \<open>ClusterName\<close>.
\<close>

theorem Populate_keys_are_ClusterName:
  assumes "PopulateFromSettings cfg apiCfg m = (None, apiCfg', m')"
  shows "dom (Clusters apiCfg') = insert (ClusterName cfg) (dom (Clusters apiCfg))
    \<and> dom (AuthInfos apiCfg') = insert (ClusterName cfg) (dom (AuthInfos apiCfg))
    \<and> dom (Contexts apiCfg') = insert (ClusterName cfg) (dom (Contexts apiCfg))
    \<and> map_option context_Cluster (Contexts apiCfg' (ClusterName cfg)) = Some (ClusterName cfg)
    \<and> map_option context_AuthInfo (Contexts apiCfg' (ClusterName cfg)) = Some (ClusterName cfg)"
proof -
  from Populate_success [OF assms] obtain ca us where
    "apiCfg' = apiCfg\<lparr>Clusters := (Clusters apiCfg)(ClusterName cfg \<mapsto> cluster_of cfg m ca),
        AuthInfos := (AuthInfos apiCfg)(ClusterName cfg \<mapsto> us),
        Contexts := (Contexts apiCfg)(ClusterName cfg \<mapsto> context_of cfg m),
        CurrentContext := (if KeepContext cfg then CurrentContext apiCfg else ClusterName cfg)\<rparr>"
    by blast
  then show ?thesis by (simp add: context_of_def)
qed

theorem Populate_keys_are_ClusterName_witness:
  "run_plain = (None, fst (snd run_plain), snd (snd run_plain))
   \<and> dom (Clusters (fst (snd run_plain))) = {''minikube'', ''other''}
   \<and> dom (AuthInfos (fst (snd run_plain))) = {''minikube'', ''other''}
   \<and> dom (Contexts (fst (snd run_plain))) = {''minikube'', ''other''}
   \<and> map_option context_Cluster (Contexts (fst (snd run_plain)) ''minikube'') = Some ''minikube''
   \<and> map_option context_AuthInfo (Contexts (fst (snd run_plain)) ''minikube'') = Some ''minikube''"
proof -
  have d: "dom (Clusters ex_document) = {''other''}" "dom (AuthInfos ex_document) = {''other''}"
    "dom (Contexts ex_document) = {''other''}"
    by (simp_all add: ex_document_def)
  from Populate_keys_are_ClusterName [OF run_plain_ok] run_plain_ok show ?thesis
    unfolding ex_settings_simps d by simp
qed

text \<open>
  C3. After a successful \<open>PopulateFromSettings\<close> on any document: when \<open>KeepContext\<close> is
  false the current context is \<open>ClusterName\<close>, whatever it was; when \<open>KeepContext\<close> is
  true the current context is what it was before the call, while the three entries under
  \<open>ClusterName\<close> are present all the same.
\<close>

theorem Populate_current_context:
  assumes "PopulateFromSettings cfg apiCfg m = (None, apiCfg', m')"
  shows "(\<not> KeepContext cfg \<longrightarrow> CurrentContext apiCfg' = ClusterName cfg)
    \<and> (KeepContext cfg \<longrightarrow> CurrentContext apiCfg' = CurrentContext apiCfg)
    \<and> Clusters apiCfg' (ClusterName cfg) \<noteq> None
    \<and> AuthInfos apiCfg' (ClusterName cfg) \<noteq> None
    \<and> Contexts apiCfg' (ClusterName cfg) \<noteq> None"
proof -
  from Populate_success [OF assms] obtain ca us where
    "apiCfg' = apiCfg\<lparr>Clusters := (Clusters apiCfg)(ClusterName cfg \<mapsto> cluster_of cfg m ca),
        AuthInfos := (AuthInfos apiCfg)(ClusterName cfg \<mapsto> us),
        Contexts := (Contexts apiCfg)(ClusterName cfg \<mapsto> context_of cfg m),
        CurrentContext := (if KeepContext cfg then CurrentContext apiCfg else ClusterName cfg)\<rparr>"
    by blast
  then show ?thesis by simp
qed

theorem Populate_current_context_witness:
  "(run_plain = (None, fst (snd run_plain), snd (snd run_plain))
    \<and> \<not> KeepContext ex_settings
    \<and> CurrentContext ex_document = ''other''
    \<and> CurrentContext (fst (snd run_plain)) = ''minikube'')
   \<and> (PopulateFromSettings (ex_settings\<lparr>KeepContext := True\<rparr>) ex_document ex_machine =
        (None,
         fst (snd (PopulateFromSettings (ex_settings\<lparr>KeepContext := True\<rparr>) ex_document ex_machine)),
         snd (snd (PopulateFromSettings (ex_settings\<lparr>KeepContext := True\<rparr>) ex_document ex_machine)))
    \<and> KeepContext (ex_settings\<lparr>KeepContext := True\<rparr>)
    \<and> CurrentContext
         (fst (snd (PopulateFromSettings (ex_settings\<lparr>KeepContext := True\<rparr>) ex_document ex_machine)))
       = ''other''
    \<and> Clusters
         (fst (snd (PopulateFromSettings (ex_settings\<lparr>KeepContext := True\<rparr>) ex_document ex_machine)))
         ''minikube'' \<noteq> None)"
proof -
  have keep: "PopulateFromSettings (ex_settings\<lparr>KeepContext := True\<rparr>) ex_document ex_machine =
        (None,
         fst (snd (PopulateFromSettings (ex_settings\<lparr>KeepContext := True\<rparr>) ex_document ex_machine)),
         snd (snd (PopulateFromSettings (ex_settings\<lparr>KeepContext := True\<rparr>) ex_document ex_machine)))"
    by (simp add: Populate_noembed ex_settings_simps)
  have cur: "CurrentContext ex_document = ''other''" by (simp add: ex_document_def)
  from Populate_current_context [OF run_plain_ok] Populate_current_context [OF keep]
    run_plain_ok keep cur
  show ?thesis by (simp add: ex_settings_simps)
qed

text \<open>
  C8. A successful \<open>PopulateFromSettings\<close> leaves every entry of the cluster, credential
  and context mappings whose key differs from \<open>ClusterName\<close> as it was, and leaves every
  extension object that existed before the call as it was.
\<close>

theorem Populate_other_keys_unchanged:
  assumes "PopulateFromSettings cfg apiCfg m = (None, apiCfg', m')"
    and "k \<noteq> ClusterName cfg"
  shows "Clusters apiCfg' k = Clusters apiCfg k
    \<and> AuthInfos apiCfg' k = AuthInfos apiCfg k
    \<and> Contexts apiCfg' k = Contexts apiCfg k
    \<and> take (length (store m)) (store m') = store m"
proof -
  from Populate_success [OF assms(1)] obtain ca us where
    "apiCfg' = apiCfg\<lparr>Clusters := (Clusters apiCfg)(ClusterName cfg \<mapsto> cluster_of cfg m ca),
        AuthInfos := (AuthInfos apiCfg)(ClusterName cfg \<mapsto> us),
        Contexts := (Contexts apiCfg)(ClusterName cfg \<mapsto> context_of cfg m),
        CurrentContext := (if KeepContext cfg then CurrentContext apiCfg else ClusterName cfg)\<rparr>"
    and "store m' = store m @ [stamp m, stamp m, stamp m]"
    by blast
  with assms(2) show ?thesis by simp
qed

theorem Populate_other_keys_unchanged_witness:
  "run_embed = (None, fst (snd run_embed), snd (snd run_embed))
   \<and> ''other'' \<noteq> ClusterName ex_embed
   \<and> Clusters (fst (snd run_embed)) ''other''
       = Some (NewCluster\<lparr>cluster_Server := ''https://10.0.0.1''\<rparr>)
   \<and> AuthInfos (fst (snd run_embed)) ''other'' = Some NewAuthInfo
   \<and> Contexts (fst (snd run_embed)) ''other'' = Some (NewContext\<lparr>context_Cluster := ''other''\<rparr>)
   \<and> take (length (store ex_machine)) (store (snd (snd run_embed))) = store ex_machine"
proof -
  have k: "''other'' \<noteq> ClusterName ex_embed" by (simp add: ex_settings_simps)
  have d: "Clusters ex_document ''other'' = Some (NewCluster\<lparr>cluster_Server := ''https://10.0.0.1''\<rparr>)"
    "AuthInfos ex_document ''other'' = Some NewAuthInfo"
    "Contexts ex_document ''other'' = Some (NewContext\<lparr>context_Cluster := ''other''\<rparr>)"
    by (simp_all add: ex_document_def)
  from Populate_other_keys_unchanged [OF run_embed_ok k] run_embed_ok k d
  show ?thesis by simp
qed

text \<open>
  C10. Within one successful \<open>PopulateFromSettings\<close>, the \<open>cluster_info\<close> extension of
  the cluster entry and the \<open>context_info\<close> extension of the context entry are deep
  copies of one extension object: the three objects (the original and the two copies)
  are allocated by the call at three distinct addresses and have the same content, the
  creator \<open>minikube.sigs.k8s.io\<close> and the one reading of the clock that the call takes.
\<close>

theorem Populate_extensions_are_copies:
  assumes "PopulateFromSettings cfg apiCfg m = (None, apiCfg', m')"
  shows "\<exists>x a b. distinct [x, a, b]
    \<and> length (store m) \<le> x \<and> x < length (store m')
    \<and> length (store m) \<le> a \<and> a < length (store m')
    \<and> length (store m) \<le> b \<and> b < length (store m')
    \<and> map_option cluster_Extensions (Clusters apiCfg' (ClusterName cfg))
        = Some [''cluster_info'' \<mapsto> InternalExtensionPtr a]
    \<and> map_option context_Extensions (Contexts apiCfg' (ClusterName cfg))
        = Some [''context_info'' \<mapsto> InternalExtensionPtr b]
    \<and> store m' ! x = \<lparr>TypeMeta = \<lparr>APIVersion = [], Kind = []\<rparr>,
         CreatedBy = ''minikube.sigs.k8s.io'', LastUpdate = clock m (ticks m)\<rparr>
    \<and> store m' ! a = store m' ! x
    \<and> store m' ! b = store m' ! x
    \<and> ticks m' = Suc (ticks m)
    \<and> (\<exists>evs. trace m' = trace m @ evs \<and> length (filter (\<lambda>e. e = EvNow) evs) = 1)"
proof -
  from Populate_success [OF assms] obtain ca us where
    doc: "apiCfg' = apiCfg\<lparr>Clusters := (Clusters apiCfg)(ClusterName cfg \<mapsto> cluster_of cfg m ca),
        AuthInfos := (AuthInfos apiCfg)(ClusterName cfg \<mapsto> us),
        Contexts := (Contexts apiCfg)(ClusterName cfg \<mapsto> context_of cfg m),
        CurrentContext := (if KeepContext cfg then CurrentContext apiCfg else ClusterName cfg)\<rparr>"
    and st: "store m' = store m @ [stamp m, stamp m, stamp m]"
    and tk: "ticks m' = Suc (ticks m)"
    and tr: "\<exists>evs. trace m' = trace m @ evs \<and> length (filter (\<lambda>e. e = EvNow) evs) = 1"
    by blast
  let ?x = "length (store m)"
  let ?a = "Suc (length (store m))" and ?b = "Suc (Suc (length (store m)))"
  have "distinct [?x, ?a, ?b]" by simp
  moreover have "length (store m) \<le> ?x \<and> ?x < length (store m')
    \<and> length (store m) \<le> ?a \<and> ?a < length (store m')
    \<and> length (store m) \<le> ?b \<and> ?b < length (store m')"
    by (simp add: st)
  moreover have "map_option cluster_Extensions (Clusters apiCfg' (ClusterName cfg))
        = Some [''cluster_info'' \<mapsto> InternalExtensionPtr ?a]"
    by (simp add: doc cluster_of_def)
  moreover have "map_option context_Extensions (Contexts apiCfg' (ClusterName cfg))
        = Some [''context_info'' \<mapsto> InternalExtensionPtr ?b]"
    by (simp add: doc context_of_def)
  moreover have "store m' ! ?x = \<lparr>TypeMeta = \<lparr>APIVersion = [], Kind = []\<rparr>,
         CreatedBy = ''minikube.sigs.k8s.io'', LastUpdate = clock m (ticks m)\<rparr>"
    by (simp add: st nth_append stamp_def)
  moreover have "store m' ! ?a = store m' ! ?x \<and> store m' ! ?b = store m' ! ?x"
    by (simp add: st nth_append)
  ultimately show ?thesis using tk tr by blast
qed

theorem Populate_extensions_are_copies_witness:
  "run_embed = (None, fst (snd run_embed), snd (snd run_embed))
   \<and> (\<exists>x a b. distinct [x, a, b]
    \<and> x < length (store (snd (snd run_embed)))
    \<and> a < length (store (snd (snd run_embed)))
    \<and> b < length (store (snd (snd run_embed)))
    \<and> map_option cluster_Extensions (Clusters (fst (snd run_embed)) ''minikube'')
        = Some [''cluster_info'' \<mapsto> InternalExtensionPtr a]
    \<and> map_option context_Extensions (Contexts (fst (snd run_embed)) ''minikube'')
        = Some [''context_info'' \<mapsto> InternalExtensionPtr b]
    \<and> store (snd (snd run_embed)) ! x = \<lparr>TypeMeta = \<lparr>APIVersion = [], Kind = []\<rparr>,
         CreatedBy = ''minikube.sigs.k8s.io'', LastUpdate = ''t''\<rparr>
    \<and> store (snd (snd run_embed)) ! a = store (snd (snd run_embed)) ! x
    \<and> store (snd (snd run_embed)) ! b = store (snd (snd run_embed)) ! x
    \<and> ticks (snd (snd run_embed)) = 1)"
proof -
  from Populate_extensions_are_copies [OF run_embed_ok] obtain x a b where
    "distinct [x, a, b]" "x < length (store (snd (snd run_embed)))"
    "a < length (store (snd (snd run_embed)))" "b < length (store (snd (snd run_embed)))"
    "map_option cluster_Extensions (Clusters (fst (snd run_embed)) (ClusterName ex_embed))
        = Some [''cluster_info'' \<mapsto> InternalExtensionPtr a]"
    "map_option context_Extensions (Contexts (fst (snd run_embed)) (ClusterName ex_embed))
        = Some [''context_info'' \<mapsto> InternalExtensionPtr b]"
    "store (snd (snd run_embed)) ! x = \<lparr>TypeMeta = \<lparr>APIVersion = [], Kind = []\<rparr>,
         CreatedBy = ''minikube.sigs.k8s.io'',
         LastUpdate = clock ex_machine (ticks ex_machine)\<rparr>"
    "store (snd (snd run_embed)) ! a = store (snd (snd run_embed)) ! x"
    "store (snd (snd run_embed)) ! b = store (snd (snd run_embed)) ! x"
    "ticks (snd (snd run_embed)) = Suc (ticks ex_machine)"
    by blast
  then have "distinct [x, a, b]
    \<and> x < length (store (snd (snd run_embed)))
    \<and> a < length (store (snd (snd run_embed)))
    \<and> b < length (store (snd (snd run_embed)))
    \<and> map_option cluster_Extensions (Clusters (fst (snd run_embed)) ''minikube'')
        = Some [''cluster_info'' \<mapsto> InternalExtensionPtr a]
    \<and> map_option context_Extensions (Contexts (fst (snd run_embed)) ''minikube'')
        = Some [''context_info'' \<mapsto> InternalExtensionPtr b]
    \<and> store (snd (snd run_embed)) ! x = \<lparr>TypeMeta = \<lparr>APIVersion = [], Kind = []\<rparr>,
         CreatedBy = ''minikube.sigs.k8s.io'', LastUpdate = ''t''\<rparr>
    \<and> store (snd (snd run_embed)) ! a = store (snd (snd run_embed)) ! x
    \<and> store (snd (snd run_embed)) ! b = store (snd (snd run_embed)) ! x
    \<and> ticks (snd (snd run_embed)) = 1"
    by (simp add: ex_settings_simps ex_machine_simps)
  then have "\<exists>x a b. distinct [x, a, b]
    \<and> x < length (store (snd (snd run_embed)))
    \<and> a < length (store (snd (snd run_embed)))
    \<and> b < length (store (snd (snd run_embed)))
    \<and> map_option cluster_Extensions (Clusters (fst (snd run_embed)) ''minikube'')
        = Some [''cluster_info'' \<mapsto> InternalExtensionPtr a]
    \<and> map_option context_Extensions (Contexts (fst (snd run_embed)) ''minikube'')
        = Some [''context_info'' \<mapsto> InternalExtensionPtr b]
    \<and> store (snd (snd run_embed)) ! x = \<lparr>TypeMeta = \<lparr>APIVersion = [], Kind = []\<rparr>,
         CreatedBy = ''minikube.sigs.k8s.io'', LastUpdate = ''t''\<rparr>
    \<and> store (snd (snd run_embed)) ! a = store (snd (snd run_embed)) ! x
    \<and> store (snd (snd run_embed)) ! b = store (snd (snd run_embed)) ! x
    \<and> ticks (snd (snd run_embed)) = 1"
    by blast
  with run_embed_ok show ?thesis by blast
qed

text \<open>
  C4. With \<open>EmbedCerts\<close> false, \<open>PopulateFromSettings\<close> succeeds and reads no file (its
  only effect outside the document and the object store is one reading of the clock, and
  its result is the same on every disk), and the certificate-authority path of the
  cluster entry and the client-certificate and client-key paths of the credential entry
  are the settings' path fields, verbatim.
\<close>

theorem Populate_paths_by_reference:
  assumes "\<not> EmbedCerts cfg"
    and "PopulateFromSettings cfg apiCfg m = (err, apiCfg', m')"
  shows "err = None
    \<and> trace m' = trace m @ [EvNow]
    \<and> (\<forall>dk. PopulateFromSettings cfg apiCfg (m\<lparr>disk := dk\<rparr>) = (None, apiCfg', m'\<lparr>disk := dk\<rparr>))
    \<and> map_option cluster_CertificateAuthority (Clusters apiCfg' (ClusterName cfg))
        = Some (CertificateAuthority cfg)
    \<and> map_option user_ClientCertificate (AuthInfos apiCfg' (ClusterName cfg))
        = Some (ClientCertificate cfg)
    \<and> map_option user_ClientKey (AuthInfos apiCfg' (ClusterName cfg))
        = Some (ClientKey cfg)"
proof -
  note r = Populate_noembed [OF assms(1), of apiCfg]
  from r [of m] assms(2) have e: "err = None"
    and d: "apiCfg' = apiCfg\<lparr>Clusters := (Clusters apiCfg)(ClusterName cfg \<mapsto> cluster_of cfg m []),
        AuthInfos := (AuthInfos apiCfg)(ClusterName cfg \<mapsto>
         \<lparr>user_ClientCertificate = ClientCertificate cfg, user_ClientCertificateData = [],
          user_ClientKey = ClientKey cfg, user_ClientKeyData = []\<rparr>),
        Contexts := (Contexts apiCfg)(ClusterName cfg \<mapsto> context_of cfg m),
        CurrentContext := (if KeepContext cfg then CurrentContext apiCfg else ClusterName cfg)\<rparr>"
    and m': "m' = m\<lparr>store := store m @ [stamp m, stamp m, stamp m], ticks := Suc (ticks m),
       trace := trace m @ [EvNow]\<rparr>"
    by simp_all
  have "trace m' = trace m @ [EvNow]" by (simp add: m')
  moreover have "\<forall>dk. PopulateFromSettings cfg apiCfg (m\<lparr>disk := dk\<rparr>)
      = (None, apiCfg', m'\<lparr>disk := dk\<rparr>)"
    by (simp add: r d m' cluster_of_def context_of_def stamp_def)
  moreover have "map_option cluster_CertificateAuthority (Clusters apiCfg' (ClusterName cfg))
        = Some (CertificateAuthority cfg)"
    using assms(1) by (simp add: d cluster_of_def)
  moreover have "map_option user_ClientCertificate (AuthInfos apiCfg' (ClusterName cfg))
        = Some (ClientCertificate cfg)"
    by (simp add: d)
  moreover have "map_option user_ClientKey (AuthInfos apiCfg' (ClusterName cfg))
        = Some (ClientKey cfg)"
    by (simp add: d)
  ultimately show ?thesis using e by blast
qed

theorem Populate_paths_by_reference_witness:
  "\<not> EmbedCerts ex_settings
   \<and> fst run_plain = None
   \<and> trace (snd (snd run_plain)) = [EvNow]
   \<and> PopulateFromSettings ex_settings ex_document (ex_machine\<lparr>disk := (\<lambda>p. Inl EACCES)\<rparr>)
       = (None, fst (snd run_plain), (snd (snd run_plain))\<lparr>disk := (\<lambda>p. Inl EACCES)\<rparr>)
   \<and> map_option cluster_CertificateAuthority (Clusters (fst (snd run_plain)) ''minikube'')
       = Some ''ca.crt''
   \<and> map_option user_ClientCertificate (AuthInfos (fst (snd run_plain)) ''minikube'')
       = Some ''client.crt''
   \<and> map_option user_ClientKey (AuthInfos (fst (snd run_plain)) ''minikube'')
       = Some ''client.key''"
proof -
  have ne: "\<not> EmbedCerts ex_settings" by (simp add: ex_settings_simps)
  have h: "run_plain = (fst run_plain, fst (snd run_plain), snd (snd run_plain))" by simp
  from Populate_paths_by_reference [OF ne h] ne show ?thesis
    by (simp add: ex_settings_simps ex_machine_simps)
qed

text \<open>
  C5. With \<open>EmbedCerts\<close> true and the three certificate files readable,
  \<open>PopulateFromSettings\<close> succeeds, the inlined certificate-authority data of the cluster
  entry and the inlined client-certificate and client-key data of the credential entry
  are the contents of the respective files, and the three path fields of those entries
  are empty strings.
\<close>

theorem Populate_embedded_data:
  assumes "EmbedCerts cfg"
    and "disk m (CertificateAuthority cfg) = Inr ca"
    and "disk m (ClientCertificate cfg) = Inr cc"
    and "disk m (ClientKey cfg) = Inr ck"
    and "PopulateFromSettings cfg apiCfg m = (err, apiCfg', m')"
  shows "err = None
    \<and> map_option cluster_CertificateAuthorityData (Clusters apiCfg' (ClusterName cfg)) = Some ca
    \<and> map_option user_ClientCertificateData (AuthInfos apiCfg' (ClusterName cfg)) = Some cc
    \<and> map_option user_ClientKeyData (AuthInfos apiCfg' (ClusterName cfg)) = Some ck
    \<and> map_option cluster_CertificateAuthority (Clusters apiCfg' (ClusterName cfg)) = Some []
    \<and> map_option user_ClientCertificate (AuthInfos apiCfg' (ClusterName cfg)) = Some []
    \<and> map_option user_ClientKey (AuthInfos apiCfg' (ClusterName cfg)) = Some []"
proof -
  from Populate_embed [OF assms(1-4), of apiCfg] assms(5) have e: "err = None"
    and d: "apiCfg' = apiCfg\<lparr>Clusters := (Clusters apiCfg)(ClusterName cfg \<mapsto> cluster_of cfg m ca),
        AuthInfos := (AuthInfos apiCfg)(ClusterName cfg \<mapsto>
         \<lparr>user_ClientCertificate = [], user_ClientCertificateData = cc,
          user_ClientKey = [], user_ClientKeyData = ck\<rparr>),
        Contexts := (Contexts apiCfg)(ClusterName cfg \<mapsto> context_of cfg m),
        CurrentContext := (if KeepContext cfg then CurrentContext apiCfg else ClusterName cfg)\<rparr>"
    by simp_all
  from e assms(1) show ?thesis by (simp add: d cluster_of_def)
qed

theorem Populate_embedded_data_witness:
  "EmbedCerts ex_embed
   \<and> disk ex_machine (CertificateAuthority ex_embed) = Inr [1]
   \<and> disk ex_machine (ClientCertificate ex_embed) = Inr [2]
   \<and> disk ex_machine (ClientKey ex_embed) = Inr [3]
   \<and> fst run_embed = None
   \<and> map_option cluster_CertificateAuthorityData (Clusters (fst (snd run_embed)) ''minikube'')
       = Some [1]
   \<and> map_option user_ClientCertificateData (AuthInfos (fst (snd run_embed)) ''minikube'')
       = Some [2]
   \<and> map_option user_ClientKeyData (AuthInfos (fst (snd run_embed)) ''minikube'') = Some [3]
   \<and> map_option cluster_CertificateAuthority (Clusters (fst (snd run_embed)) ''minikube'')
       = Some []
   \<and> map_option user_ClientCertificate (AuthInfos (fst (snd run_embed)) ''minikube'') = Some []
   \<and> map_option user_ClientKey (AuthInfos (fst (snd run_embed)) ''minikube'') = Some []"
proof -
  have em: "EmbedCerts ex_embed" by simp
  have f: "disk ex_machine (CertificateAuthority ex_embed) = Inr [1]"
    "disk ex_machine (ClientCertificate ex_embed) = Inr [2]"
    "disk ex_machine (ClientKey ex_embed) = Inr [3]"
    by (simp_all add: ex_settings_simps ex_machine_simps)
  have h: "run_embed = (fst run_embed, fst (snd run_embed), snd (snd run_embed))" by simp
  from Populate_embedded_data [OF em f h] f show ?thesis
    by (simp add: ex_settings_simps)
qed

text \<open>
  C6. With \<open>EmbedCerts\<close> true, when reading the certificate-authority file fails,
  \<open>PopulateFromSettings\<close> returns the read error wrapped in a message that carries the
  certificate-authority path, and returns before any write to the document: the document
  is what it was, so the cluster entry under \<open>ClusterName\<close>, if any, is unchanged; no
  object was allocated and the clock was not read.
\<close>

theorem Populate_ca_read_failure:
  assumes "EmbedCerts cfg"
    and "disk m (CertificateAuthority cfg) = Inl e"
    and "PopulateFromSettings cfg apiCfg m = (err, apiCfg', m')"
  shows "err = Some (Wrap (''reading CertificateAuthority '' @ CertificateAuthority cfg)
                     (PathError (CertificateAuthority cfg) e))
    \<and> apiCfg' = apiCfg
    \<and> Clusters apiCfg' (ClusterName cfg) = Clusters apiCfg (ClusterName cfg)
    \<and> store m' = store m \<and> ticks m' = ticks m
    \<and> trace m' = trace m @ [EvReadFile (CertificateAuthority cfg)]"
  using Populate_ca_fails [OF assms(1,2), of apiCfg] assms(3) by auto

theorem Populate_ca_read_failure_witness:
  "EmbedCerts (ex_embed\<lparr>ClusterName := ''other'', CertificateAuthority := ''gone''\<rparr>)
   \<and> disk ex_machine ''gone'' = Inl ENOENT
   \<and> fst (PopulateFromSettings (ex_embed\<lparr>ClusterName := ''other'', CertificateAuthority := ''gone''\<rparr>)
            ex_document ex_machine)
       = Some (Wrap ''reading CertificateAuthority gone'' (PathError ''gone'' ENOENT))
   \<and> fst (snd (PopulateFromSettings
                 (ex_embed\<lparr>ClusterName := ''other'', CertificateAuthority := ''gone''\<rparr>)
                 ex_document ex_machine)) = ex_document
   \<and> Clusters (fst (snd (PopulateFromSettings
                 (ex_embed\<lparr>ClusterName := ''other'', CertificateAuthority := ''gone''\<rparr>)
                 ex_document ex_machine))) ''other''
       = Some (NewCluster\<lparr>cluster_Server := ''https://10.0.0.1''\<rparr>)"
proof -
  let ?cfg = "ex_embed\<lparr>ClusterName := ''other'', CertificateAuthority := ''gone''\<rparr>"
  have em: "EmbedCerts ?cfg" by simp
  have f: "disk ex_machine (CertificateAuthority ?cfg) = Inl ENOENT"
    by (simp add: ex_machine_simps)
  have h: "PopulateFromSettings ?cfg ex_document ex_machine =
     (fst (PopulateFromSettings ?cfg ex_document ex_machine),
      fst (snd (PopulateFromSettings ?cfg ex_document ex_machine)),
      snd (snd (PopulateFromSettings ?cfg ex_document ex_machine)))" by simp
  have d: "Clusters ex_document ''other'' = Some (NewCluster\<lparr>cluster_Server := ''https://10.0.0.1''\<rparr>)"
    by (simp add: ex_document_def)
  from Populate_ca_read_failure [OF em f h] d show ?thesis
    by (simp add: ex_machine_simps)
qed

text \<open>
  C7. With \<open>EmbedCerts\<close> true and the certificate-authority file readable, when the
  read of the client certificate fails, or it succeeds and the read of the client key
  fails, \<open>PopulateFromSettings\<close> returns the read error wrapped in a message that carries
  the failing path; the document then already holds the new cluster entry under
  \<open>ClusterName\<close>, while the credential mapping (and the context mapping and the current
  context) are what they were.
\<close>

theorem Populate_client_read_failure:
  assumes "EmbedCerts cfg"
    and "disk m (CertificateAuthority cfg) = Inr ca"
    and "disk m (ClientCertificate cfg) = Inl e
         \<or> (disk m (ClientCertificate cfg) = Inr cc \<and> disk m (ClientKey cfg) = Inl e)"
    and "PopulateFromSettings cfg apiCfg m = (err, apiCfg', m')"
  shows "err = Some (if disk m (ClientCertificate cfg) = Inl e
                     then Wrap (''reading ClientCertificate '' @ ClientCertificate cfg)
                            (PathError (ClientCertificate cfg) e)
                     else Wrap (''reading ClientKey '' @ ClientKey cfg)
                            (PathError (ClientKey cfg) e))
    \<and> Clusters apiCfg' = (Clusters apiCfg)(ClusterName cfg \<mapsto>
         \<lparr>cluster_Server = ClusterServerAddress cfg, cluster_CertificateAuthority = [],
          cluster_CertificateAuthorityData = ca,
          cluster_Extensions =
            [''cluster_info'' \<mapsto> InternalExtensionPtr (Suc (length (store m)))]\<rparr>)
    \<and> AuthInfos apiCfg' = AuthInfos apiCfg
    \<and> Contexts apiCfg' = Contexts apiCfg
    \<and> CurrentContext apiCfg' = CurrentContext apiCfg"
proof (cases "disk m (ClientCertificate cfg) = Inl e")
  case True
  from Populate_cert_fails [OF assms(1,2) True, of apiCfg] assms(1,4) True
  show ?thesis by (auto simp: cluster_of_def)
next
  case False
  with assms(3) have c: "disk m (ClientCertificate cfg) = Inr cc"
    and k: "disk m (ClientKey cfg) = Inl e" by simp_all
  from Populate_key_fails [OF assms(1,2) c k, of apiCfg] assms(1,4) False
  show ?thesis by (auto simp: cluster_of_def)
qed

theorem Populate_client_read_failure_witness:
  "EmbedCerts (ex_embed\<lparr>ClientKey := ''gone''\<rparr>)
   \<and> disk ex_machine (CertificateAuthority (ex_embed\<lparr>ClientKey := ''gone''\<rparr>)) = Inr [1]
   \<and> disk ex_machine (ClientCertificate (ex_embed\<lparr>ClientKey := ''gone''\<rparr>)) = Inr [2]
   \<and> disk ex_machine (ClientKey (ex_embed\<lparr>ClientKey := ''gone''\<rparr>)) = Inl ENOENT
   \<and> fst (PopulateFromSettings (ex_embed\<lparr>ClientKey := ''gone''\<rparr>) ex_document ex_machine)
       = Some (Wrap ''reading ClientKey gone'' (PathError ''gone'' ENOENT))
   \<and> Clusters (fst (snd (PopulateFromSettings (ex_embed\<lparr>ClientKey := ''gone''\<rparr>)
                 ex_document ex_machine))) ''minikube''
       = Some \<lparr>cluster_Server = ''https://192.168.49.2:8443'', cluster_CertificateAuthority = [],
               cluster_CertificateAuthorityData = [1],
               cluster_Extensions = [''cluster_info'' \<mapsto> InternalExtensionPtr 1]\<rparr>
   \<and> AuthInfos (fst (snd (PopulateFromSettings (ex_embed\<lparr>ClientKey := ''gone''\<rparr>)
                 ex_document ex_machine))) = [''other'' \<mapsto> NewAuthInfo]"
proof -
  let ?cfg = "ex_embed\<lparr>ClientKey := ''gone''\<rparr>"
  have em: "EmbedCerts ?cfg" by simp
  have f: "disk ex_machine (CertificateAuthority ?cfg) = Inr [1]"
    "disk ex_machine (ClientCertificate ?cfg) = Inr [2]"
    "disk ex_machine (ClientKey ?cfg) = Inl ENOENT"
    by (simp_all add: ex_settings_simps ex_machine_simps)
  have g: "disk ex_machine (ClientCertificate ?cfg) = Inl ENOENT
     \<or> (disk ex_machine (ClientCertificate ?cfg) = Inr [2]
        \<and> disk ex_machine (ClientKey ?cfg) = Inl ENOENT)"
    using f by simp
  have h: "PopulateFromSettings ?cfg ex_document ex_machine =
     (fst (PopulateFromSettings ?cfg ex_document ex_machine),
      fst (snd (PopulateFromSettings ?cfg ex_document ex_machine)),
      snd (snd (PopulateFromSettings ?cfg ex_document ex_machine)))" by simp
  have d: "AuthInfos ex_document = [''other'' \<mapsto> NewAuthInfo]"
    by (simp add: ex_document_def)
  have s: "ClusterServerAddress ex_settings = ''https://192.168.49.2:8443''"
    by (simp add: ex_settings_def)
  from Populate_client_read_failure [OF em f(1) g h] f d s show ?thesis
    by (simp add: ex_settings_simps ex_machine_simps)
qed

section \<open>The claims about Update\<close>

text \<open>
  C1. With \<open>EmbedCerts\<close> true, when \<open>Update\<close> has taken the lock and loaded the
  document and one of the certificate files cannot be read, \<open>PopulateFromSettings\<close>
  fails, \<open>Update\<close> returns that very error, and the persist step is never reached:
  the disk is what it was before the call and the effects of the call contain no file
  write. What the projector changed in the in-memory document is not persisted.
\<close>

theorem Update_certificate_failure_not_persisted:
  assumes "EmbedCerts kcs"
    and "kubeConfigFile kcs = Some p"
    and "lockfail m p ''settings.Update'' = None"
    and "readOrNew cd p (log_event (EvAcquire p ''settings.Update'') m) = (Inr kcfg, m2)"
    and "disk m (CertificateAuthority kcs) = Inl e1
         \<or> disk m (ClientCertificate kcs) = Inl e2
         \<or> disk m (ClientKey kcs) = Inl e3"
  shows "\<exists>err. fst (PopulateFromSettings kcs kcfg m2) = Some err
    \<and> fst (Update cd kcs m) = Some err
    \<and> disk (snd (Update cd kcs m)) = disk m
    \<and> (\<exists>evs. trace (snd (Update cd kcs m)) = trace m @ evs \<and> (\<forall>q. EvWriteFile q \<notin> set evs))"
proof -
  let ?m1 = "log_event (EvAcquire p ''settings.Update'') m"
  from readOrNew_frame [OF assms(4)]
  have dk: "disk m2 = disk m"
    and tr: "trace m2 = trace m @ [EvAcquire p ''settings.Update'', EvReadFile p]"
    by (simp_all add: log_event_def)
  from assms(5) dk
  have "disk m2 (CertificateAuthority kcs) = Inl e1
         \<or> disk m2 (ClientCertificate kcs) = Inl e2
         \<or> disk m2 (ClientKey kcs) = Inl e3"
    by simp
  from Populate_failure [OF assms(1) this, of kcfg] obtain err d m3 evs where
    pop: "PopulateFromSettings kcs kcfg m2 = (Some err, d, m3)"
    and dk3: "disk m3 = disk m2"
    and tr3: "trace m3 = trace m2 @ evs" and nw: "\<forall>q. EvWriteFile q \<notin> set evs"
    by blast
  have upd: "Update cd kcs m = (Some err, Release p ''settings.Update'' m3)"
    using assms(2,3,4) pop by (simp add: Update_def filePath_def Acquire_def)
  have "fst (PopulateFromSettings kcs kcfg m2) = Some err" by (simp add: pop)
  moreover have "fst (Update cd kcs m) = Some err" by (simp add: upd)
  moreover have "disk (snd (Update cd kcs m)) = disk m"
    by (simp add: upd Release_def log_event_def dk3 dk)
  moreover have "trace (snd (Update cd kcs m)) = trace m @
      ([EvAcquire p ''settings.Update'', EvReadFile p] @ evs @ [EvRelease p ''settings.Update''])"
    by (simp add: upd Release_def log_event_def tr3 tr)
  moreover have "\<forall>q. EvWriteFile q \<notin>
      set ([EvAcquire p ''settings.Update'', EvReadFile p] @ evs @ [EvRelease p ''settings.Update''])"
    using nw by simp
  ultimately show ?thesis by blast
qed

theorem Update_certificate_failure_not_persisted_witness:
  "EmbedCerts (ex_embed\<lparr>ClientKey := ''gone''\<rparr>)
   \<and> kubeConfigFile (ex_embed\<lparr>ClientKey := ''gone''\<rparr>) = Some ''config''
   \<and> lockfail ex_machine ''config'' ''settings.Update'' = None
   \<and> readOrNew ex_codec ''config'' (log_event (EvAcquire ''config'' ''settings.Update'') ex_machine)
       = (Inr NewConfig,
          ex_machine\<lparr>trace := [EvAcquire ''config'' ''settings.Update'', EvReadFile ''config'']\<rparr>)
   \<and> disk ex_machine (ClientKey (ex_embed\<lparr>ClientKey := ''gone''\<rparr>)) = Inl ENOENT
   \<and> fst (Update ex_codec (ex_embed\<lparr>ClientKey := ''gone''\<rparr>) ex_machine)
       = Some (Wrap ''reading ClientKey gone'' (PathError ''gone'' ENOENT))
   \<and> disk (snd (Update ex_codec (ex_embed\<lparr>ClientKey := ''gone''\<rparr>) ex_machine)) = disk ex_machine
   \<and> disk (snd (Update ex_codec (ex_embed\<lparr>ClientKey := ''gone''\<rparr>) ex_machine)) ''config''
       = Inl ENOENT"
proof -
  let ?kcs = "ex_embed\<lparr>ClientKey := ''gone''\<rparr>"
  let ?m2 = "ex_machine\<lparr>trace := [EvAcquire ''config'' ''settings.Update'', EvReadFile ''config'']\<rparr>"
  have em: "EmbedCerts ?kcs" by simp
  have fp: "kubeConfigFile ?kcs = Some ''config''" by (simp add: ex_settings_simps)
  have lk: "lockfail ex_machine ''config'' ''settings.Update'' = None"
    by (simp add: ex_machine_simps)
  have ld: "readOrNew ex_codec ''config''
       (log_event (EvAcquire ''config'' ''settings.Update'') ex_machine) = (Inr NewConfig, ?m2)"
    by (simp add: readOrNew_def ReadFile_def log_event_def ex_machine_simps)
  have f: "disk ?m2 (CertificateAuthority ?kcs) = Inr [1]"
    "disk ?m2 (ClientCertificate ?kcs) = Inr [2]"
    "disk ?m2 (ClientKey ?kcs) = Inl ENOENT"
    by (simp_all add: ex_settings_simps ex_machine_simps)
  have g: "disk ex_machine (CertificateAuthority ?kcs) = Inl ENOENT
     \<or> disk ex_machine (ClientCertificate ?kcs) = Inl ENOENT
     \<or> disk ex_machine (ClientKey ?kcs) = Inl ENOENT"
    by (simp add: ex_machine_simps)
  have pop: "fst (PopulateFromSettings ?kcs NewConfig ?m2)
      = Some (Wrap ''reading ClientKey gone'' (PathError ''gone'' ENOENT))"
    using Populate_key_fails [OF em f, of NewConfig] by simp
  from Update_certificate_failure_not_persisted [OF em fp lk ld g] pop
  have "fst (Update ex_codec ?kcs ex_machine)
       = Some (Wrap ''reading ClientKey gone'' (PathError ''gone'' ENOENT))
     \<and> disk (snd (Update ex_codec ?kcs ex_machine)) = disk ex_machine"
    by auto
  with em fp lk ld show ?thesis by (simp add: ex_machine_simps)
qed

text \<open>
  C9. During \<open>Update\<close>, once the lock is held: when no file exists at the target path,
  the load yields the empty document and no error, and \<open>Update\<close> goes on to project onto
  that empty document and to persist; when the file exists and its content does not
  parse, \<open>Update\<close> returns the parse error and does nothing else than take the lock, read
  the file and release the lock, so nothing is projected, nothing is written and the
  disk is unchanged.
\<close>

theorem Update_load_missing_or_unparsable:
  assumes "kubeConfigFile kcs = Some p"
    and "lockfail m p ''settings.Update'' = None"
  shows "(disk m p = Inl ENOENT \<longrightarrow>
       readOrNew cd p m = (Inr NewConfig, log_event (EvReadFile p) m)
     \<and> Update cd kcs m =
        (case PopulateFromSettings kcs NewConfig
                (m\<lparr>trace := trace m @ [EvAcquire p ''settings.Update'', EvReadFile p]\<rparr>) of
           (Some err, kcfg1, m3) \<Rightarrow> (Some err, Release p ''settings.Update'' m3)
         | (None, kcfg1, m3) \<Rightarrow>
             (case writeToFile cd kcfg1 p m3 of
                (Some err, m4) \<Rightarrow>
                  (Some (Wrap ''writing kubeconfig'' err), Release p ''settings.Update'' m4)
              | (None, m4) \<Rightarrow> (None, Release p ''settings.Update'' m4))))
   \<and> (\<forall>data. disk m p = Inr data \<and> decode cd data (store m) = None \<longrightarrow>
       Update cd kcs m =
         (Some (DecodeError data),
          m\<lparr>trace := trace m @ [EvAcquire p ''settings.Update'', EvReadFile p,
                                  EvRelease p ''settings.Update'']\<rparr>))"
proof (intro conjI impI allI)
  assume "disk m p = Inl ENOENT"
  then show "readOrNew cd p m = (Inr NewConfig, log_event (EvReadFile p) m)"
    by (simp add: readOrNew_def ReadFile_def)
next
  assume miss: "disk m p = Inl ENOENT"
  have "readOrNew cd p (log_event (EvAcquire p ''settings.Update'') m)
      = (Inr NewConfig, m\<lparr>trace := trace m @ [EvAcquire p ''settings.Update'', EvReadFile p]\<rparr>)"
    using miss by (simp add: readOrNew_def ReadFile_def log_event_def)
  with assms show "Update cd kcs m =
        (case PopulateFromSettings kcs NewConfig
                (m\<lparr>trace := trace m @ [EvAcquire p ''settings.Update'', EvReadFile p]\<rparr>) of
           (Some err, kcfg1, m3) \<Rightarrow> (Some err, Release p ''settings.Update'' m3)
         | (None, kcfg1, m3) \<Rightarrow>
             (case writeToFile cd kcfg1 p m3 of
                (Some err, m4) \<Rightarrow>
                  (Some (Wrap ''writing kubeconfig'' err), Release p ''settings.Update'' m4)
              | (None, m4) \<Rightarrow> (None, Release p ''settings.Update'' m4)))"
    by (simp add: Update_def filePath_def Acquire_def split: prod.splits option.splits)
next
  fix data
  assume "disk m p = Inr data \<and> decode cd data (store m) = None"
  then have "readOrNew cd p (log_event (EvAcquire p ''settings.Update'') m)
      = (Inl (DecodeError data),
         m\<lparr>trace := trace m @ [EvAcquire p ''settings.Update'', EvReadFile p]\<rparr>)"
    by (simp add: readOrNew_def ReadFile_def log_event_def)
  with assms show "Update cd kcs m =
         (Some (DecodeError data),
          m\<lparr>trace := trace m @ [EvAcquire p ''settings.Update'', EvReadFile p,
                                  EvRelease p ''settings.Update'']\<rparr>)"
    by (simp add: Update_def filePath_def Acquire_def Release_def log_event_def)
qed

theorem Update_load_missing_or_unparsable_witness:
  "(kubeConfigFile ex_settings = Some ''config''
    \<and> lockfail ex_machine ''config'' ''settings.Update'' = None
    \<and> disk ex_machine ''config'' = Inl ENOENT
    \<and> readOrNew ex_codec ''config'' ex_machine
        = (Inr NewConfig, log_event (EvReadFile ''config'') ex_machine)
    \<and> fst (Update ex_codec ex_settings ex_machine) = None
    \<and> disk (snd (Update ex_codec ex_settings ex_machine)) ''config'' = Inr [])
   \<and> (kubeConfigFile (ex_settings\<lparr>kubeConfigFile := Some ''broken''\<rparr>) = Some ''broken''
    \<and> lockfail ex_machine ''broken'' ''settings.Update'' = None
    \<and> disk ex_machine ''broken'' = Inr [7]
    \<and> decode ex_codec [7] (store ex_machine) = None
    \<and> Update ex_codec (ex_settings\<lparr>kubeConfigFile := Some ''broken''\<rparr>) ex_machine
        = (Some (DecodeError [7]),
           ex_machine\<lparr>trace := [EvAcquire ''broken'' ''settings.Update'', EvReadFile ''broken'',
                                 EvRelease ''broken'' ''settings.Update'']\<rparr>))"
proof -
  let ?m2 = "ex_machine\<lparr>trace := trace ex_machine @
               [EvAcquire ''config'' ''settings.Update'', EvReadFile ''config'']\<rparr>"
  have fp: "kubeConfigFile ex_settings = Some ''config''" by (simp add: ex_settings_simps)
  have fb: "kubeConfigFile (ex_settings\<lparr>kubeConfigFile := Some ''broken''\<rparr>) = Some ''broken''"
    by simp
  have lk: "lockfail ex_machine ''config'' ''settings.Update'' = None"
    "lockfail ex_machine ''broken'' ''settings.Update'' = None"
    by (simp_all add: ex_machine_simps)
  have miss: "disk ex_machine ''config'' = Inl ENOENT" by (simp add: ex_machine_simps)
  have brk: "disk ex_machine ''broken'' = Inr [7] \<and> decode ex_codec [7] (store ex_machine) = None"
    by (simp add: ex_machine_simps ex_codec_def)
  have ne: "\<not> EmbedCerts ex_settings" by (simp add: ex_settings_simps)
  have w: "wfail ?m2 ''config'' = None" by (simp add: ex_machine_simps)
  from Update_load_missing_or_unparsable [OF fp lk(1), of ex_codec] miss
  have a: "readOrNew ex_codec ''config'' ex_machine
        = (Inr NewConfig, log_event (EvReadFile ''config'') ex_machine)"
    and u: "Update ex_codec ex_settings ex_machine =
        (case PopulateFromSettings ex_settings NewConfig ?m2 of
           (Some err, kcfg1, m3) \<Rightarrow> (Some err, Release ''config'' ''settings.Update'' m3)
         | (None, kcfg1, m3) \<Rightarrow>
             (case writeToFile ex_codec kcfg1 ''config'' m3 of
                (Some err, m4) \<Rightarrow>
                  (Some (Wrap ''writing kubeconfig'' err), Release ''config'' ''settings.Update'' m4)
              | (None, m4) \<Rightarrow> (None, Release ''config'' ''settings.Update'' m4)))"
    by simp_all
  have b: "fst (Update ex_codec ex_settings ex_machine) = None
    \<and> disk (snd (Update ex_codec ex_settings ex_machine)) ''config'' = Inr []"
    unfolding u Populate_noembed [OF ne]
    by (simp add: writeToFile_def Release_def log_event_def ex_machine_simps ex_codec_def)
  from Update_load_missing_or_unparsable [OF fb lk(2), of ex_codec] brk
  have c: "Update ex_codec (ex_settings\<lparr>kubeConfigFile := Some ''broken''\<rparr>) ex_machine
        = (Some (DecodeError [7]),
           ex_machine\<lparr>trace := [EvAcquire ''broken'' ''settings.Update'', EvReadFile ''broken'',
                                 EvRelease ''broken'' ''settings.Update'']\<rparr>)"
    by (simp add: ex_machine_simps)
  from fp fb lk miss brk a b c show ?thesis by blast
qed

end
